theory Spec2Isabelle
  imports Complex_Main "HOL-Library.Word"
begin

section \<open>Data model of the Allure report parser\<close>

text \<open>
  The parser reads a directory of Allure JSON artifacts and republishes them as
  Prometheus gauges. The embedding follows the newer of the two copies of the program
  (the one with \<open>resetMetrics\<close>, \<open>getLabelValue\<close> and \<open>isUsefulLabel\<close>).

  Conventions of the embedding:
  \<^item> Go's \<open>int64\<close> is \<open>64 word\<close>, read with \<open>sint\<close>; subtraction wraps.
  \<^item> Go's \<open>int\<close> fields are only ever converted to \<open>float64\<close>, never added or
    subtracted, so they are \<open>int\<close>.
  \<^item> A \<open>float64\<close> gauge value is represented by the real number it denotes: the
    conversion \<open>float64(n)\<close> is \<open>of_int n\<close> and \<open>/\<close> is field division (not integer
    division). The rounding of binary64 arithmetic is outside the model.
  \<^item> Go strings are byte strings (\<open>string\<close>). The case mapping of \<open>strings.ToLower\<close> and
    \<open>strings.EqualFold\<close> is modelled on ASCII bytes, where Go maps \<open>A..Z\<close> to \<open>a..z\<close>;
    a byte outside ASCII is left as it is, where Go consults the Unicode tables.
  \<^item> Reading and decoding a file (\<open>ioutil.ReadFile\<close>, \<open>json.Unmarshal\<close>) is not
    modelled: the outcome of loading each artifact is an input, \<open>Inl\<close> an error and
    \<open>Inr\<close> the decoded value.
\<close>

type_synonym float64 = real
type_synonym int64 = "64 word"

record Label =
  label_Name :: string
  label_Value :: string

record Step =
  step_Name :: string
  step_Status :: string

text \<open>\<open>AllureSummary\<close>: the nested structs \<open>Statistic\<close> and \<open>Time\<close> are flattened.\<close>

record AllureSummary =
  stat_Passed :: int
  stat_Failed :: int
  stat_Broken :: int
  stat_Skipped :: int
  time_Duration :: int64

record AllureTestCase =
  tc_UUID :: string
  tc_Name :: string
  tc_Status :: string
  tc_Start :: int64
  tc_Stop :: int64
  tc_Labels :: "Label list"
  tc_Steps :: "Step list"

text \<open>\<open>HistoryItem\<close>: the nested struct \<open>Data\<close> is flattened.\<close>

record HistoryItem =
  data_Failed :: int

record AllureHistoryTrend =
  trend_Items :: "HistoryItem list"

text \<open>
  \<open>AllureEnvironment\<close> is a Go map from string to string. It is only ever ranged over,
  so it is the list of its entries in the order the range yields them; the keys of a Go
  map are distinct.
\<close>

type_synonym AllureEnvironment = "(string \<times> string) list"

subsection \<open>The metrics registry\<close>

text \<open>
  A \<open>GaugeVec\<close> holds one gauge per combination of label values: a partial map from
  the label values to the gauge's value. \<open>Reset\<close> deletes every combination,
  \<open>WithLabelValues(...).Set(v)\<close> creates the combination if needed and stores \<open>v\<close>,
  \<open>WithLabelValues(...).Inc()\<close> creates it at 0 if needed and adds 1. A plain \<open>Gauge\<close>
  is a single value, 0 when created; it has no \<open>Reset\<close>.
\<close>

record metrics =
  testsTotal :: "string \<rightharpoonup> float64"
  suiteDuration :: float64
  testDuration :: "string \<times> string \<rightharpoonup> float64"
  testStatus :: "string \<times> string \<times> string \<rightharpoonup> float64"
  flakyRatio :: float64
  environmentInfo :: "string \<times> string \<rightharpoonup> float64"
  historyTrend :: "string \<rightharpoonup> float64"
  testsByLabel :: "string \<times> string \<rightharpoonup> float64"
  stepsTotal :: "string \<times> string \<rightharpoonup> float64"

definition vec_Set :: "('k \<rightharpoonup> float64) \<Rightarrow> 'k \<Rightarrow> float64 \<Rightarrow> ('k \<rightharpoonup> float64)" where
  "vec_Set vec k v = vec(k \<mapsto> v)"

definition vec_Inc :: "('k \<rightharpoonup> float64) \<Rightarrow> 'k \<Rightarrow> ('k \<rightharpoonup> float64)" where
  "vec_Inc vec k = vec(k \<mapsto> (case vec k of None \<Rightarrow> 0 | Some v \<Rightarrow> v) + 1)"

definition vec_Reset :: "('k \<rightharpoonup> float64) \<Rightarrow> ('k \<rightharpoonup> float64)" where
  "vec_Reset vec = Map.empty"

text \<open>The registry as the \<open>var\<close> block creates it: every family empty, both gauges 0.\<close>

definition initial_metrics :: metrics where
  "initial_metrics =
     \<lparr>testsTotal = Map.empty, suiteDuration = 0, testDuration = Map.empty,
      testStatus = Map.empty, flakyRatio = 0, environmentInfo = Map.empty,
      historyTrend = Map.empty, testsByLabel = Map.empty, stepsTotal = Map.empty\<rparr>"

text \<open>
  Time: an instant is the number of nanoseconds since Go's zero \<open>time.Time\<close>, so that
  the zero value of \<open>lastParseTime\<close> is 0. A \<open>time.Duration\<close> is a signed 64-bit count of
  nanoseconds and \<open>Time.Sub\<close> saturates at its bounds.
\<close>

type_synonym Time = int
type_synonym Duration = int

definition maxDuration :: Duration where
  "maxDuration = 2 ^ 63 - 1"

definition minDuration :: Duration where
  "minDuration = - (2 ^ 63)"

definition Minute :: Duration where
  "Minute = 60 * 1000000000"

definition time_Since :: "Time \<Rightarrow> Time \<Rightarrow> Duration" where
  "time_Since now t =
     (let d = now - t in
      if d > maxDuration then maxDuration
      else if d < minDuration then minDuration
      else d)"

text \<open>The global variables of the program: the registry and \<open>lastParseTime\<close>.\<close>

record globals =
  g_metrics :: metrics
  lastParseTime :: Time

definition initial_globals :: globals where
  "initial_globals = \<lparr>g_metrics = initial_metrics, lastParseTime = 0\<rparr>"

section \<open>Helper functions\<close>

definition asciiLower :: "char \<Rightarrow> char" where
  "asciiLower c =
     (let n = (of_char c :: nat) in if 65 \<le> n \<and> n \<le> 90 then char_of (n + 32) else c)"

definition ToLower :: "string \<Rightarrow> string" where
  "ToLower s = map asciiLower s"

fun EqualFold :: "string \<Rightarrow> string \<Rightarrow> bool" where
  "EqualFold [] [] = True"
| "EqualFold (c # s) (d # t) = (asciiLower c = asciiLower d \<and> EqualFold s t)"
| "EqualFold _ _ = False"

text \<open>\<open>getLabelValue\<close>: the first label whose name folds to \<open>name\<close>, else "unknown".\<close>

fun getLabelValue :: "Label list \<Rightarrow> string \<Rightarrow> string" where
  "getLabelValue [] name = ''unknown''"
| "getLabelValue (label # labels) name =
     (if EqualFold (label_Name label) name then label_Value label
      else getLabelValue labels name)"

text \<open>\<open>isUsefulLabel\<close>: a missing key of the Go map \<open>usefulLabels\<close> reads \<open>false\<close>.\<close>

definition usefulLabels :: "string \<rightharpoonup> bool" where
  "usefulLabels =
     [''epic'' \<mapsto> True, ''feature'' \<mapsto> True, ''story'' \<mapsto> True,
      ''severity'' \<mapsto> True, ''owner'' \<mapsto> True, ''layer'' \<mapsto> True]"

definition isUsefulLabel :: "string \<Rightarrow> bool" where
  "isUsefulLabel name =
     (case usefulLabels (ToLower name) of None \<Rightarrow> False | Some b \<Rightarrow> b)"

text \<open>\<open>fmt.Sprintf("%d", i)\<close> for an index \<open>i \<ge> 0\<close>.\<close>

fun itoa :: "nat \<Rightarrow> string" where
  "itoa n =
     (if n < 10 then [char_of (48 + n)]
      else itoa (n div 10) @ [char_of (48 + n mod 10)])"

declare itoa.simps [simp del]

definition build_label :: "nat \<Rightarrow> string" where
  "build_label i = ''build_'' @ itoa i"

section \<open>Updating the metrics\<close>

definition resetMetrics :: "metrics \<Rightarrow> metrics" where
  "resetMetrics m =
     m\<lparr>testsTotal := vec_Reset (testsTotal m),
       testDuration := vec_Reset (testDuration m),
       testStatus := vec_Reset (testStatus m),
       environmentInfo := vec_Reset (environmentInfo m),
       historyTrend := vec_Reset (historyTrend m),
       testsByLabel := vec_Reset (testsByLabel m),
       stepsTotal := vec_Reset (stepsTotal m)\<rparr>"

definition updateSummaryMetrics :: "AllureSummary \<Rightarrow> metrics \<Rightarrow> metrics" where
  "updateSummaryMetrics summary m =
     (let m1 = m\<lparr>testsTotal := vec_Set (testsTotal m) ''passed'' (of_int (stat_Passed summary))\<rparr>;
          m2 = m1\<lparr>testsTotal := vec_Set (testsTotal m1) ''failed'' (of_int (stat_Failed summary))\<rparr>;
          m3 = m2\<lparr>testsTotal := vec_Set (testsTotal m2) ''broken'' (of_int (stat_Broken summary))\<rparr>;
          m4 = m3\<lparr>testsTotal := vec_Set (testsTotal m3) ''skipped'' (of_int (stat_Skipped summary))\<rparr>
      in m4\<lparr>suiteDuration := of_int (sint (time_Duration summary)) / 1000\<rparr>)"

text \<open>
  The loop of \<open>updateHistoryMetrics\<close>: \<open>i\<close> is the index of the next item, the pair is
  \<open>failedCount\<close> and the registry.
\<close>

fun history_loop :: "nat \<Rightarrow> HistoryItem list \<Rightarrow> nat \<times> metrics \<Rightarrow> nat \<times> metrics" where
  "history_loop i [] (failedCount, m) = (failedCount, m)"
| "history_loop i (item # items) (failedCount, m) =
     history_loop (Suc i) items
       (if data_Failed item > 0 then Suc failedCount else failedCount,
        m\<lparr>historyTrend := vec_Set (historyTrend m) (build_label i) (of_int (data_Failed item))\<rparr>)"

definition updateHistoryMetrics :: "AllureHistoryTrend \<Rightarrow> metrics \<Rightarrow> metrics" where
  "updateHistoryMetrics history m =
     (if length (trend_Items history) = 0 then m
      else
        (case history_loop 0 (trend_Items history) (0, m) of
           (failedCount, m') \<Rightarrow>
             m'\<lparr>flakyRatio := of_nat failedCount / of_nat (length (trend_Items history))\<rparr>))"

text \<open>
  \<open>stepsByStatus[step.Status]++\<close> on a Go map: a missing key reads 0. The second loop
  ranges over the map; its keys are the distinct step statuses, each set once, so the
  order of the range does not matter and the order of first occurrence is taken.
\<close>

definition count_step :: "(string \<rightharpoonup> nat) \<Rightarrow> Step \<Rightarrow> (string \<rightharpoonup> nat)" where
  "count_step stepsByStatus step =
     stepsByStatus(step_Status step \<mapsto>
       Suc (case stepsByStatus (step_Status step) of None \<Rightarrow> 0 | Some c \<Rightarrow> c))"

definition stepsByStatus_of :: "Step list \<Rightarrow> (string \<rightharpoonup> nat)" where
  "stepsByStatus_of steps = foldl count_step Map.empty steps"

definition set_steps :: "string \<Rightarrow> (string \<rightharpoonup> nat) \<Rightarrow> metrics \<Rightarrow> string \<Rightarrow> metrics" where
  "set_steps name stepsByStatus m status =
     (case stepsByStatus status of
        None \<Rightarrow> m
      | Some count \<Rightarrow> m\<lparr>stepsTotal := vec_Set (stepsTotal m) (name, status) (of_nat count)\<rparr>)"

definition count_label :: "metrics \<Rightarrow> Label \<Rightarrow> metrics" where
  "count_label m label =
     (if isUsefulLabel (label_Name label)
      then m\<lparr>testsByLabel := vec_Inc (testsByLabel m) (label_Name label, label_Value label)\<rparr>
      else m)"

definition updateTestCaseMetrics :: "AllureTestCase \<Rightarrow> metrics \<Rightarrow> metrics" where
  "updateTestCaseMetrics tc m =
     (let duration = of_int (sint (tc_Stop tc - tc_Start tc)) / 1000;
          m1 = m\<lparr>testDuration :=
                   vec_Set (testDuration m) (tc_Name tc, getLabelValue (tc_Labels tc) ''suite'') duration\<rparr>;
          statusValue = (if tc_Status tc = ''passed'' then 1 else 0);
          m2 = m1\<lparr>testStatus :=
                    vec_Set (testStatus m1)
                      (tc_Name tc, tc_Status tc, getLabelValue (tc_Labels tc) ''severity'') statusValue\<rparr>;
          stepsByStatus = stepsByStatus_of (tc_Steps tc);
          m3 = foldl (set_steps (tc_Name tc) stepsByStatus) m2
                 (remdups (map step_Status (tc_Steps tc)))
      in foldl count_label m3 (tc_Labels tc))"

section \<open>One parsing cycle\<close>

datatype error =
    ReadFileError
  | JsonUnmarshalError
  | ErrBadPattern
  | Wrapped string error

text \<open>
  What one cycle finds in the report directory: the outcome of loading each artifact, and
  of the glob over the test-case files with the outcome of loading each matched file, in
  the order \<open>filepath.Glob\<close> returns them.
\<close>

record report_dir =
  environment_json :: "error + AllureEnvironment"
  summary_json :: "error + AllureSummary"
  history_trend_json :: "error + AllureHistoryTrend"
  test_case_files :: "error + (error + AllureTestCase) list"

definition set_env :: "metrics \<Rightarrow> string \<times> string \<Rightarrow> metrics" where
  "set_env m kv = m\<lparr>environmentInfo := vec_Set (environmentInfo m) kv 1\<rparr>"

definition parseEnvironment :: "error + AllureEnvironment \<Rightarrow> metrics \<Rightarrow> error option \<times> metrics" where
  "parseEnvironment loaded m =
     (case loaded of
        Inl err \<Rightarrow> (Some err, m)
      | Inr env \<Rightarrow> (None, foldl set_env m env))"

definition parse_test_case :: "metrics \<Rightarrow> error + AllureTestCase \<Rightarrow> metrics" where
  "parse_test_case m loaded =
     (case loaded of
        Inl err \<Rightarrow> m
      | Inr tc \<Rightarrow> updateTestCaseMetrics tc m)"

text \<open>
  The body of \<open>parseAllureReports\<close> on the registry, without the deferred function.
\<close>

definition parse_body :: "report_dir \<Rightarrow> metrics \<Rightarrow> error option \<times> metrics" where
  "parse_body dir m =
     (let m0 = resetMetrics m;
          m1 = snd (parseEnvironment (environment_json dir) m0)
      in case summary_json dir of
           Inl err \<Rightarrow> (Some (Wrapped ''summary parse failed'' err), m1)
         | Inr summary \<Rightarrow>
             (let m2 = updateSummaryMetrics summary m1;
                  m3 = (case history_trend_json dir of
                          Inr history \<Rightarrow> updateHistoryMetrics history m2
                        | Inl err \<Rightarrow> m2)
              in case test_case_files dir of
                   Inl err \<Rightarrow> (Some (Wrapped ''test cases glob failed'' err), m3)
                 | Inr testFiles \<Rightarrow> (None, foldl parse_test_case m3 testFiles)))"

text \<open>
  \<open>parseAllureReports\<close>: the deferred function stores the time at which the cycle
  returns, \<open>now\<close>, in \<open>lastParseTime\<close> on every return path.
\<close>

definition parseAllureReports :: "report_dir \<Rightarrow> Time \<Rightarrow> globals \<Rightarrow> error option \<times> globals" where
  "parseAllureReports dir now g =
     (case parse_body dir (g_metrics g) of
        (err, m) \<Rightarrow> (err, g\<lparr>g_metrics := m, lastParseTime := now\<rparr>))"

section \<open>Health check\<close>

datatype health = OK | Unhealthy string

definition healthCheck :: "Time \<Rightarrow> globals \<Rightarrow> health" where
  "healthCheck now g =
     (if time_Since now (lastParseTime g) > 5 * Minute
      then Unhealthy ''UNHEALTHY: Data is stale''
      else OK)"

section \<open>Auxiliary definitions for the proofs\<close>

text \<open>
  The \<open>historyTrend\<close> family after the loop of \<open>updateHistoryMetrics\<close>, as a function
  of the family before it.
\<close>

fun trend_vec ::
  "nat \<Rightarrow> HistoryItem list \<Rightarrow> (string \<rightharpoonup> float64) \<Rightarrow> (string \<rightharpoonup> float64)" where
  "trend_vec i [] vec = vec"
| "trend_vec i (item # items) vec =
     trend_vec (Suc i) items (vec_Set vec (build_label i) (of_int (data_Failed item)))"

subsection \<open>A concrete report directory\<close>

text \<open>
  The summary is the one of the README's sample output (85 passed, 5 failed, 3 broken,
  7 skipped, 348.2 seconds); the test case runs from 1000 to 13500 (12.5 seconds); the
  history is the one of the specification's flaky-ratio example. The second test-case
  file does not decode.
\<close>

definition example_summary :: AllureSummary where
  "example_summary =
     \<lparr>stat_Passed = 85, stat_Failed = 5, stat_Broken = 3, stat_Skipped = 7,
      time_Duration = 348200\<rparr>"

definition example_test_case :: AllureTestCase where
  "example_test_case =
     \<lparr>tc_UUID = ''u-1'', tc_Name = ''login_test'', tc_Status = ''passed'',
      tc_Start = 1000, tc_Stop = 13500,
      tc_Labels = [\<lparr>label_Name = ''Severity'', label_Value = ''critical''\<rparr>,
                   \<lparr>label_Name = ''random'', label_Value = ''x''\<rparr>],
      tc_Steps = [\<lparr>step_Name = ''open'', step_Status = ''passed''\<rparr>]\<rparr>"

definition example_backwards_test_case :: AllureTestCase where
  "example_backwards_test_case = example_test_case\<lparr>tc_Start := 2000, tc_Stop := 1000\<rparr>"

definition example_history :: AllureHistoryTrend where
  "example_history =
     \<lparr>trend_Items = [\<lparr>data_Failed = 2\<rparr>, \<lparr>data_Failed = 0\<rparr>, \<lparr>data_Failed = 1\<rparr>]\<rparr>"

definition example_dir :: report_dir where
  "example_dir =
     \<lparr>environment_json = Inr [(''os'', ''linux'')],
      summary_json = Inr example_summary,
      history_trend_json = Inr example_history,
      test_case_files = Inr [Inr example_test_case, Inl JsonUnmarshalError]\<rparr>"

text \<open>The same directory after \<open>widgets/summary.json\<close> has been deleted.\<close>

definition example_dir_no_summary :: report_dir where
  "example_dir_no_summary = example_dir\<lparr>summary_json := Inl ReadFileError\<rparr>"


text \<open>An instant in the year 2026, in nanoseconds since the zero time.\<close>

definition example_now :: Time where
  "example_now = 63900000000000000000"

text \<open>The globals after one cycle over \<open>example_dir\<close> from the initial state.\<close>

definition example_published :: globals where
  "example_published = snd (parseAllureReports example_dir example_now initial_globals)"

section \<open>Label lookup\<close>







section \<open>What each update does to each metric family\<close>

lemma resetMetrics_fields [simp]:
  "testsTotal (resetMetrics m) = Map.empty"
  "suiteDuration (resetMetrics m) = suiteDuration m"
  "testDuration (resetMetrics m) = Map.empty"
  "testStatus (resetMetrics m) = Map.empty"
  "flakyRatio (resetMetrics m) = flakyRatio m"
  "environmentInfo (resetMetrics m) = Map.empty"
  "historyTrend (resetMetrics m) = Map.empty"
  "testsByLabel (resetMetrics m) = Map.empty"
  "stepsTotal (resetMetrics m) = Map.empty"
  by (simp_all add: resetMetrics_def vec_Reset_def)

text \<open>
  The environment loop sets the entries' gauges to 1 and nothing else; the result depends
  on the set of entries only, not on the order in which the range yields them.
\<close>

lemma foldl_set_env_eq:
  "foldl set_env m env =
     m\<lparr>environmentInfo := (\<lambda>kv. if kv \<in> set env then Some 1 else environmentInfo m kv)\<rparr>"
proof (induction env arbitrary: m)
  case Nil
  show ?case by simp
next
  case (Cons kv env)
  show ?case
    by (simp add: Cons.IH) (auto simp: set_env_def vec_Set_def fun_eq_iff)
qed

lemma foldl_set_env_fields [simp]:
  "testsTotal (foldl set_env m env) = testsTotal m"
  "suiteDuration (foldl set_env m env) = suiteDuration m"
  "testDuration (foldl set_env m env) = testDuration m"
  "testStatus (foldl set_env m env) = testStatus m"
  "flakyRatio (foldl set_env m env) = flakyRatio m"
  "environmentInfo (foldl set_env m env) =
     (\<lambda>kv. if kv \<in> set env then Some 1 else environmentInfo m kv)"
  "historyTrend (foldl set_env m env) = historyTrend m"
  "testsByLabel (foldl set_env m env) = testsByLabel m"
  "stepsTotal (foldl set_env m env) = stepsTotal m"
  by (simp_all add: foldl_set_env_eq)

lemma updateSummaryMetrics_eq:
  "updateSummaryMetrics s m =
     m\<lparr>testsTotal := (testsTotal m)(''passed'' \<mapsto> of_int (stat_Passed s),
                                      ''failed'' \<mapsto> of_int (stat_Failed s),
                                      ''broken'' \<mapsto> of_int (stat_Broken s),
                                      ''skipped'' \<mapsto> of_int (stat_Skipped s)),
       suiteDuration := of_int (sint (time_Duration s)) / 1000\<rparr>"
  by (simp add: updateSummaryMetrics_def Let_def vec_Set_def)

lemma updateSummaryMetrics_fields [simp]:
  "testsTotal (updateSummaryMetrics s m) =
     (testsTotal m)(''passed'' \<mapsto> of_int (stat_Passed s), ''failed'' \<mapsto> of_int (stat_Failed s),
                    ''broken'' \<mapsto> of_int (stat_Broken s), ''skipped'' \<mapsto> of_int (stat_Skipped s))"
  "suiteDuration (updateSummaryMetrics s m) = of_int (sint (time_Duration s)) / 1000"
  "testDuration (updateSummaryMetrics s m) = testDuration m"
  "testStatus (updateSummaryMetrics s m) = testStatus m"
  "flakyRatio (updateSummaryMetrics s m) = flakyRatio m"
  "environmentInfo (updateSummaryMetrics s m) = environmentInfo m"
  "historyTrend (updateSummaryMetrics s m) = historyTrend m"
  "testsByLabel (updateSummaryMetrics s m) = testsByLabel m"
  "stepsTotal (updateSummaryMetrics s m) = stepsTotal m"
  by (simp_all add: updateSummaryMetrics_eq)

lemma history_loop_eq:
  "history_loop i items (c, m) =
     (c + length (filter (\<lambda>item. data_Failed item > 0) items),
      m\<lparr>historyTrend := trend_vec i items (historyTrend m)\<rparr>)"
  by (induction items arbitrary: i c m) simp_all

lemma updateHistoryMetrics_eq:
  "updateHistoryMetrics h m =
     (if trend_Items h = [] then m
      else m\<lparr>historyTrend := trend_vec 0 (trend_Items h) (historyTrend m),
             flakyRatio := of_nat (length (filter (\<lambda>item. data_Failed item > 0) (trend_Items h)))
                             / of_nat (length (trend_Items h))\<rparr>)"
  by (simp add: updateHistoryMetrics_def history_loop_eq)

lemma updateHistoryMetrics_Nil [simp]:
  "trend_Items h = [] \<Longrightarrow> updateHistoryMetrics h m = m"
  by (simp add: updateHistoryMetrics_eq)

lemma updateHistoryMetrics_fields [simp]:
  "testsTotal (updateHistoryMetrics h m) = testsTotal m"
  "suiteDuration (updateHistoryMetrics h m) = suiteDuration m"
  "testDuration (updateHistoryMetrics h m) = testDuration m"
  "testStatus (updateHistoryMetrics h m) = testStatus m"
  "flakyRatio (updateHistoryMetrics h m) =
     (if trend_Items h = [] then flakyRatio m
      else of_nat (length (filter (\<lambda>item. data_Failed item > 0) (trend_Items h)))
             / of_nat (length (trend_Items h)))"
  "environmentInfo (updateHistoryMetrics h m) = environmentInfo m"
  "testsByLabel (updateHistoryMetrics h m) = testsByLabel m"
  "stepsTotal (updateHistoryMetrics h m) = stepsTotal m"
  by (simp_all add: updateHistoryMetrics_eq)

lemma set_steps_fields [simp]:
  "testsTotal (set_steps n sb m st) = testsTotal m"
  "suiteDuration (set_steps n sb m st) = suiteDuration m"
  "testDuration (set_steps n sb m st) = testDuration m"
  "testStatus (set_steps n sb m st) = testStatus m"
  "flakyRatio (set_steps n sb m st) = flakyRatio m"
  "environmentInfo (set_steps n sb m st) = environmentInfo m"
  "historyTrend (set_steps n sb m st) = historyTrend m"
  "testsByLabel (set_steps n sb m st) = testsByLabel m"
  by (simp_all add: set_steps_def split: option.splits)

lemma foldl_set_steps_fields [simp]:
  "testsTotal (foldl (set_steps n sb) m sts) = testsTotal m"
  "suiteDuration (foldl (set_steps n sb) m sts) = suiteDuration m"
  "testDuration (foldl (set_steps n sb) m sts) = testDuration m"
  "testStatus (foldl (set_steps n sb) m sts) = testStatus m"
  "flakyRatio (foldl (set_steps n sb) m sts) = flakyRatio m"
  "environmentInfo (foldl (set_steps n sb) m sts) = environmentInfo m"
  "historyTrend (foldl (set_steps n sb) m sts) = historyTrend m"
  "testsByLabel (foldl (set_steps n sb) m sts) = testsByLabel m"
  by (induction sts arbitrary: m; simp)+

text \<open>
  The loop over \<open>stepsByStatus\<close> sets one gauge per key of the map; the result depends on
  the set of keys ranged over only, not on their order.
\<close>

lemma stepsTotal_set_steps:
  "stepsTotal (set_steps n sb m st) k =
     (if k = (n, st) \<and> sb st \<noteq> None then map_option of_nat (sb st) else stepsTotal m k)"
  by (auto simp: set_steps_def vec_Set_def split: option.splits)

lemma stepsTotal_foldl_set_steps:
  "stepsTotal (foldl (set_steps n sb) m sts) (n', st') =
     (if n' = n \<and> st' \<in> set sts \<and> sb st' \<noteq> None
      then map_option of_nat (sb st') else stepsTotal m (n', st'))"
proof (induction sts arbitrary: m)
  case Nil
  show ?case by simp
next
  case (Cons st sts)
  show ?case
    by (auto simp: Cons.IH stepsTotal_set_steps)
qed

lemma count_label_fields [simp]:
  "testsTotal (count_label m l) = testsTotal m"
  "suiteDuration (count_label m l) = suiteDuration m"
  "testDuration (count_label m l) = testDuration m"
  "testStatus (count_label m l) = testStatus m"
  "flakyRatio (count_label m l) = flakyRatio m"
  "environmentInfo (count_label m l) = environmentInfo m"
  "historyTrend (count_label m l) = historyTrend m"
  "stepsTotal (count_label m l) = stepsTotal m"
  by (simp_all add: count_label_def)

lemma foldl_count_label_fields [simp]:
  "testsTotal (foldl count_label m ls) = testsTotal m"
  "suiteDuration (foldl count_label m ls) = suiteDuration m"
  "testDuration (foldl count_label m ls) = testDuration m"
  "testStatus (foldl count_label m ls) = testStatus m"
  "flakyRatio (foldl count_label m ls) = flakyRatio m"
  "environmentInfo (foldl count_label m ls) = environmentInfo m"
  "historyTrend (foldl count_label m ls) = historyTrend m"
  "stepsTotal (foldl count_label m ls) = stepsTotal m"
  by (induction ls arbitrary: m; simp)+




lemma testDuration_updateTestCaseMetrics:
  "testDuration (updateTestCaseMetrics tc m) =
     (testDuration m)((tc_Name tc, getLabelValue (tc_Labels tc) ''suite'') \<mapsto>
        of_int (sint (tc_Stop tc - tc_Start tc)) / 1000)"
  by (simp add: updateTestCaseMetrics_def Let_def vec_Set_def)

lemma updateTestCaseMetrics_fields [simp]:
  "testsTotal (updateTestCaseMetrics tc m) = testsTotal m"
  "suiteDuration (updateTestCaseMetrics tc m) = suiteDuration m"
  "flakyRatio (updateTestCaseMetrics tc m) = flakyRatio m"
  "environmentInfo (updateTestCaseMetrics tc m) = environmentInfo m"
  "historyTrend (updateTestCaseMetrics tc m) = historyTrend m"
  by (simp_all add: updateTestCaseMetrics_def Let_def)

lemma parse_test_case_fields [simp]:
  "testsTotal (parse_test_case m f) = testsTotal m"
  "suiteDuration (parse_test_case m f) = suiteDuration m"
  "flakyRatio (parse_test_case m f) = flakyRatio m"
  "environmentInfo (parse_test_case m f) = environmentInfo m"
  "historyTrend (parse_test_case m f) = historyTrend m"
  by (simp_all add: parse_test_case_def split: sum.splits)

lemma foldl_parse_test_case_fields [simp]:
  "testsTotal (foldl parse_test_case m fs) = testsTotal m"
  "suiteDuration (foldl parse_test_case m fs) = suiteDuration m"
  "flakyRatio (foldl parse_test_case m fs) = flakyRatio m"
  "environmentInfo (foldl parse_test_case m fs) = environmentInfo m"
  "historyTrend (foldl parse_test_case m fs) = historyTrend m"
  by (induction fs arbitrary: m; simp)+



section \<open>The cycle as a whole\<close>

lemma parse_body_summary_failed:
  assumes "summary_json dir = Inl err"
  shows "parse_body dir m =
     (Some (Wrapped ''summary parse failed'' err),
      m\<lparr>testsTotal := Map.empty, testDuration := Map.empty, testStatus := Map.empty,
        environmentInfo :=
          (case environment_json dir of
             Inl e \<Rightarrow> Map.empty
           | Inr env \<Rightarrow> (\<lambda>kv. if kv \<in> set env then Some 1 else None)),
        historyTrend := Map.empty, testsByLabel := Map.empty, stepsTotal := Map.empty\<rparr>)"
proof -
  let ?m1 = "snd (parseEnvironment (environment_json dir) (resetMetrics m))"
  have "parse_body dir m = (Some (Wrapped ''summary parse failed'' err), ?m1)"
    using assms by (simp add: parse_body_def Let_def)
  moreover have "?m1 =
      m\<lparr>testsTotal := Map.empty, testDuration := Map.empty, testStatus := Map.empty,
        environmentInfo :=
          (case environment_json dir of
             Inl e \<Rightarrow> Map.empty
           | Inr env \<Rightarrow> (\<lambda>kv. if kv \<in> set env then Some 1 else None)),
        historyTrend := Map.empty, testsByLabel := Map.empty, stepsTotal := Map.empty\<rparr>"
    by (rule metrics.equality) (auto simp: parseEnvironment_def fun_eq_iff split: sum.splits)
  ultimately show ?thesis by simp
qed




lemma parseAllureReports_fst: "fst (parseAllureReports dir now g) = fst (parse_body dir (g_metrics g))"
  by (simp add: parseAllureReports_def split: prod.splits)

lemma parseAllureReports_metrics:
  "g_metrics (snd (parseAllureReports dir now g)) = snd (parse_body dir (g_metrics g))"
  by (simp add: parseAllureReports_def split: prod.splits)

lemma parseAllureReports_lastParseTime:
  "lastParseTime (snd (parseAllureReports dir now g)) = now"
  by (simp add: parseAllureReports_def split: prod.splits)

subsection \<open>Updates of the two plain gauges commute with everything that does not set them\<close>

lemma reset_scalars:
  "resetMetrics m1 =
     (resetMetrics m)\<lparr>suiteDuration := suiteDuration m1, flakyRatio := flakyRatio m1\<rparr>"
  by (simp add: resetMetrics_def vec_Reset_def)

lemma scalar_upd_out:
  "m\<lparr>suiteDuration := a, testsTotal := X1\<rparr> = m\<lparr>testsTotal := X1, suiteDuration := a\<rparr>"
  "m\<lparr>suiteDuration := a, testDuration := X2\<rparr> = m\<lparr>testDuration := X2, suiteDuration := a\<rparr>"
  "m\<lparr>suiteDuration := a, testStatus := X3\<rparr> = m\<lparr>testStatus := X3, suiteDuration := a\<rparr>"
  "m\<lparr>suiteDuration := a, environmentInfo := X4\<rparr> = m\<lparr>environmentInfo := X4, suiteDuration := a\<rparr>"
  "m\<lparr>suiteDuration := a, historyTrend := X5\<rparr> = m\<lparr>historyTrend := X5, suiteDuration := a\<rparr>"
  "m\<lparr>suiteDuration := a, testsByLabel := X6\<rparr> = m\<lparr>testsByLabel := X6, suiteDuration := a\<rparr>"
  "m\<lparr>suiteDuration := a, stepsTotal := X7\<rparr> = m\<lparr>stepsTotal := X7, suiteDuration := a\<rparr>"
  "m\<lparr>flakyRatio := b, testsTotal := X1\<rparr> = m\<lparr>testsTotal := X1, flakyRatio := b\<rparr>"
  "m\<lparr>flakyRatio := b, testDuration := X2\<rparr> = m\<lparr>testDuration := X2, flakyRatio := b\<rparr>"
  "m\<lparr>flakyRatio := b, testStatus := X3\<rparr> = m\<lparr>testStatus := X3, flakyRatio := b\<rparr>"
  "m\<lparr>flakyRatio := b, environmentInfo := X4\<rparr> = m\<lparr>environmentInfo := X4, flakyRatio := b\<rparr>"
  "m\<lparr>flakyRatio := b, historyTrend := X5\<rparr> = m\<lparr>historyTrend := X5, flakyRatio := b\<rparr>"
  "m\<lparr>flakyRatio := b, testsByLabel := X6\<rparr> = m\<lparr>testsByLabel := X6, flakyRatio := b\<rparr>"
  "m\<lparr>flakyRatio := b, stepsTotal := X7\<rparr> = m\<lparr>stepsTotal := X7, flakyRatio := b\<rparr>"
  by simp_all

lemma upd_same:
  "m\<lparr>suiteDuration := suiteDuration m\<rparr> = m"
  "m\<lparr>flakyRatio := flakyRatio m\<rparr> = m"
  by simp_all

lemma set_env_upd:
  "set_env (m\<lparr>suiteDuration := a\<rparr>) kv = (set_env m kv)\<lparr>suiteDuration := a\<rparr>"
  "set_env (m\<lparr>flakyRatio := b\<rparr>) kv = (set_env m kv)\<lparr>flakyRatio := b\<rparr>"
  by (simp_all add: set_env_def scalar_upd_out)

lemma foldl_set_env_upd:
  "foldl set_env (m\<lparr>suiteDuration := a\<rparr>) env = (foldl set_env m env)\<lparr>suiteDuration := a\<rparr>"
  "foldl set_env (m\<lparr>flakyRatio := b\<rparr>) env = (foldl set_env m env)\<lparr>flakyRatio := b\<rparr>"
  by (induction env arbitrary: m; simp add: set_env_upd)+

lemma updateSummaryMetrics_upd:
  "updateSummaryMetrics s (m\<lparr>suiteDuration := a\<rparr>) = updateSummaryMetrics s m"
  "updateSummaryMetrics s (m\<lparr>flakyRatio := b\<rparr>) = (updateSummaryMetrics s m)\<lparr>flakyRatio := b\<rparr>"
  by (simp_all add: updateSummaryMetrics_def Let_def scalar_upd_out)

lemma updateHistoryMetrics_upd:
  "updateHistoryMetrics h (m\<lparr>suiteDuration := a\<rparr>) = (updateHistoryMetrics h m)\<lparr>suiteDuration := a\<rparr>"
  "updateHistoryMetrics h (m\<lparr>flakyRatio := b\<rparr>) =
     (if trend_Items h = [] then m\<lparr>flakyRatio := b\<rparr> else updateHistoryMetrics h m)"
  by (simp_all add: updateHistoryMetrics_eq scalar_upd_out)

lemma set_steps_upd:
  "set_steps n sb (m\<lparr>suiteDuration := a\<rparr>) st = (set_steps n sb m st)\<lparr>suiteDuration := a\<rparr>"
  "set_steps n sb (m\<lparr>flakyRatio := b\<rparr>) st = (set_steps n sb m st)\<lparr>flakyRatio := b\<rparr>"
  by (simp_all add: set_steps_def scalar_upd_out split: option.splits)

lemma foldl_set_steps_upd:
  "foldl (set_steps n sb) (m\<lparr>suiteDuration := a\<rparr>) sts = (foldl (set_steps n sb) m sts)\<lparr>suiteDuration := a\<rparr>"
  "foldl (set_steps n sb) (m\<lparr>flakyRatio := b\<rparr>) sts = (foldl (set_steps n sb) m sts)\<lparr>flakyRatio := b\<rparr>"
  by (induction sts arbitrary: m; simp add: set_steps_upd)+

lemma count_label_upd:
  "count_label (m\<lparr>suiteDuration := a\<rparr>) l = (count_label m l)\<lparr>suiteDuration := a\<rparr>"
  "count_label (m\<lparr>flakyRatio := b\<rparr>) l = (count_label m l)\<lparr>flakyRatio := b\<rparr>"
  by (simp_all add: count_label_def scalar_upd_out)

lemma foldl_count_label_upd:
  "foldl count_label (m\<lparr>suiteDuration := a\<rparr>) ls = (foldl count_label m ls)\<lparr>suiteDuration := a\<rparr>"
  "foldl count_label (m\<lparr>flakyRatio := b\<rparr>) ls = (foldl count_label m ls)\<lparr>flakyRatio := b\<rparr>"
  by (induction ls arbitrary: m; simp add: count_label_upd)+

lemma updateTestCaseMetrics_upd:
  "updateTestCaseMetrics tc (m\<lparr>suiteDuration := a\<rparr>) = (updateTestCaseMetrics tc m)\<lparr>suiteDuration := a\<rparr>"
  "updateTestCaseMetrics tc (m\<lparr>flakyRatio := b\<rparr>) = (updateTestCaseMetrics tc m)\<lparr>flakyRatio := b\<rparr>"
  by (simp_all add: updateTestCaseMetrics_def Let_def scalar_upd_out
      foldl_set_steps_upd foldl_count_label_upd)

lemma parse_test_case_upd:
  "parse_test_case (m\<lparr>suiteDuration := a\<rparr>) f = (parse_test_case m f)\<lparr>suiteDuration := a\<rparr>"
  "parse_test_case (m\<lparr>flakyRatio := b\<rparr>) f = (parse_test_case m f)\<lparr>flakyRatio := b\<rparr>"
  by (simp_all add: parse_test_case_def updateTestCaseMetrics_upd split: sum.splits)

lemma foldl_parse_test_case_upd:
  "foldl parse_test_case (m\<lparr>suiteDuration := a\<rparr>) fs = (foldl parse_test_case m fs)\<lparr>suiteDuration := a\<rparr>"
  "foldl parse_test_case (m\<lparr>flakyRatio := b\<rparr>) fs = (foldl parse_test_case m fs)\<lparr>flakyRatio := b\<rparr>"
  by (induction fs arbitrary: m; simp add: parse_test_case_upd)+

lemmas upd_commute =
  foldl_set_env_upd updateSummaryMetrics_upd updateHistoryMetrics_upd foldl_parse_test_case_upd

lemma parse_body_idem:
  "snd (parse_body dir (snd (parse_body dir m))) = snd (parse_body dir m)"
proof -
  define m1 where "m1 = snd (parse_body dir m)"
  have r: "resetMetrics m1 =
     (resetMetrics m)\<lparr>suiteDuration := suiteDuration m1, flakyRatio := flakyRatio m1\<rparr>"
    by (rule reset_scalars)
  show ?thesis
    unfolding m1_def [symmetric]
    apply (simp add: parse_body_def [of dir m1] Let_def r)
    apply (simp add: m1_def parse_body_def Let_def parseEnvironment_def upd_commute upd_same
        split: sum.splits)
    done
qed

lemma parse_body_fst: "fst (parse_body dir m') = fst (parse_body dir m)"
  by (simp add: parse_body_def Let_def split: sum.splits)

subsection \<open>Arithmetic\<close>

lemma sint_sub_nonneg:
  fixes a b :: int64
  assumes "0 \<le> sint a" "0 \<le> sint b"
  shows "sint (b - a) = sint b - sint a"
proof -
  have "sint a < 2 ^ 63" "sint b < 2 ^ 63"
    using sint_lt [of a] sint_lt [of b] by simp_all
  with assms have "- (2 ^ 63) \<le> sint b - sint a" "sint b - sint a < 2 ^ 63"
    by simp_all
  then have "signed_take_bit 63 (sint b - sint a) = sint b - sint a"
    by (simp add: signed_take_bit_int_eq_self_iff)
  then show ?thesis
    by (simp add: sint_word_ariths)
qed

lemma healthCheck_iff:
  "healthCheck t g = OK \<longleftrightarrow> t - lastParseTime g \<le> 5 * Minute"
  by (simp add: healthCheck_def time_Since_def Let_def maxDuration_def minDuration_def Minute_def)

section \<open>Evaluating the concrete report directory\<close>

lemma example_cycle_ok: "fst (parseAllureReports example_dir example_now initial_globals) = None"
  by code_simp

lemma example_published_passed:
  "testsTotal (g_metrics example_published) ''passed'' = Some 85"
  by code_simp


lemma example_published_by_label:
  "testsByLabel (g_metrics example_published) (''Severity'', ''critical'') = Some 1"
  by code_simp



lemma example_suite_unknown: "getLabelValue (tc_Labels example_test_case) ''suite'' = ''unknown''"
  by code_simp

section \<open>The claims\<close>

subsection \<open>C1: a cycle whose Summary fails to load\<close>

text \<open>
  Claim C1 as stated (a cycle in which loading the Summary fails leaves every metric
  family at the values of the last successful cycle) does not hold: after a successful
  cycle over the example directory has published 85 passed tests, a cycle over the same
  directory without the summary file returns an error and \<open>tests_total\<close> has lost the
  value.
\<close>

theorem summary_failure_keeps_snapshot_counterexample:
  "fst (parseAllureReports example_dir example_now initial_globals) = None
   \<and> testsTotal (g_metrics example_published) ''passed'' = Some 85
   \<and> fst (parseAllureReports example_dir_no_summary (example_now + 30000000000) example_published)
       = Some (Wrapped ''summary parse failed'' ReadFileError)
   \<and> testsTotal (g_metrics (snd (parseAllureReports example_dir_no_summary
         (example_now + 30000000000) example_published))) ''passed'' = None
   \<and> g_metrics (snd (parseAllureReports example_dir_no_summary
         (example_now + 30000000000) example_published)) \<noteq> g_metrics example_published"
proof -
  have a: "fst (parseAllureReports example_dir example_now initial_globals) = None"
    by code_simp
  have b: "testsTotal (g_metrics example_published) ''passed'' = Some 85"
    by code_simp
  have c: "fst (parseAllureReports example_dir_no_summary (example_now + 30000000000) example_published)
       = Some (Wrapped ''summary parse failed'' ReadFileError)"
    by code_simp
  have d: "testsTotal (g_metrics (snd (parseAllureReports example_dir_no_summary
         (example_now + 30000000000) example_published))) ''passed'' = None"
    by code_simp
  from b d have "g_metrics (snd (parseAllureReports example_dir_no_summary
         (example_now + 30000000000) example_published)) \<noteq> g_metrics example_published"
    by auto
  with a b c d show ?thesis by blast
qed

text \<open>
  Claim C1, amended: a cycle in which loading the Summary fails returns the error
  "summary parse failed" and publishes nothing from Summary, History or test cases, and
  the two plain gauges (suite duration, flaky ratio) keep their previous values; but the
  seven labelled families were reset when the cycle started, so they no longer hold the
  previous snapshot: each is empty, except \<open>environment_info\<close>, which holds the entries
  of the Environment file when that file loaded.
\<close>

theorem summary_failure_resets_families:
  assumes "summary_json dir = Inl err"
  shows "fst (parseAllureReports dir now g) = Some (Wrapped ''summary parse failed'' err)
    \<and> g_metrics (snd (parseAllureReports dir now g)) =
        (g_metrics g)\<lparr>testsTotal := Map.empty, testDuration := Map.empty, testStatus := Map.empty,
          environmentInfo :=
            (case environment_json dir of
               Inl e \<Rightarrow> Map.empty
             | Inr env \<Rightarrow> (\<lambda>kv. if kv \<in> set env then Some 1 else None)),
          historyTrend := Map.empty, testsByLabel := Map.empty, stepsTotal := Map.empty\<rparr>"
  using parse_body_summary_failed [OF assms, of "g_metrics g"]
  by (simp add: parseAllureReports_fst parseAllureReports_metrics)

theorem summary_failure_resets_families_witness:
  "summary_json example_dir_no_summary = Inl ReadFileError
   \<and> fst (parseAllureReports example_dir_no_summary (example_now + 30000000000) example_published)
       = Some (Wrapped ''summary parse failed'' ReadFileError)
   \<and> g_metrics (snd (parseAllureReports example_dir_no_summary
         (example_now + 30000000000) example_published)) =
       (g_metrics example_published)\<lparr>testsTotal := Map.empty, testDuration := Map.empty,
          testStatus := Map.empty,
          environmentInfo := (\<lambda>kv. if kv \<in> set [(''os'', ''linux'')] then Some 1 else None),
          historyTrend := Map.empty, testsByLabel := Map.empty, stepsTotal := Map.empty\<rparr>"
proof -
  have h: "summary_json example_dir_no_summary = Inl ReadFileError"
    by (simp add: example_dir_no_summary_def)
  have e: "environment_json example_dir_no_summary = Inr [(''os'', ''linux'')]"
    by (simp add: example_dir_no_summary_def example_dir_def)
  from summary_failure_resets_families [OF h, of "example_now + 30000000000" example_published]
  show ?thesis
    by (simp add: h e)
qed

subsection \<open>C2: the timestamp of the health check\<close>

text \<open>
  Claim C2 as stated (the timestamp is updated only by a successful cycle, and the health
  check is Unhealthy while no cycle has completed successfully) does not hold: the only
  cycle run so far aborted on the missing summary file, it stored its time in
  \<open>lastParseTime\<close> all the same, and one second later the health check answers OK.
\<close>

theorem health_after_failed_cycle_counterexample:
  "fst (parseAllureReports example_dir_no_summary example_now initial_globals)
     = Some (Wrapped ''summary parse failed'' ReadFileError)
   \<and> lastParseTime (snd (parseAllureReports example_dir_no_summary example_now initial_globals))
       = example_now
   \<and> healthCheck (example_now + 1000000000)
       (snd (parseAllureReports example_dir_no_summary example_now initial_globals)) = OK"
  by code_simp

text \<open>
  Claim C2, amended: the timestamp consulted by the health check is updated at the end of
  every cycle, whether the cycle completed or aborted; the health check reports Unhealthy
  whenever the time since the last cycle ended (successful or not) exceeds the threshold
  of five minutes, which includes the state in which no cycle has ended yet (the timestamp
  is then the zero time), and OK otherwise.
\<close>

theorem health_tracks_every_cycle:
  "lastParseTime (snd (parseAllureReports dir now g)) = now
   \<and> (healthCheck t g = OK \<longleftrightarrow> t - lastParseTime g \<le> 5 * Minute)
   \<and> (healthCheck t g = Unhealthy ''UNHEALTHY: Data is stale'' \<longleftrightarrow> 5 * Minute < t - lastParseTime g)
   \<and> (5 * Minute < t \<longrightarrow> healthCheck t initial_globals = Unhealthy ''UNHEALTHY: Data is stale'')"
proof -
  have "healthCheck t g = Unhealthy ''UNHEALTHY: Data is stale'' \<longleftrightarrow> healthCheck t g \<noteq> OK"
    by (simp add: healthCheck_def)
  moreover have "5 * Minute < t \<longrightarrow> healthCheck t initial_globals \<noteq> OK"
    by (simp add: healthCheck_iff initial_globals_def)
  moreover have "healthCheck t initial_globals \<noteq> OK
      \<longrightarrow> healthCheck t initial_globals = Unhealthy ''UNHEALTHY: Data is stale''"
    by (simp add: healthCheck_def)
  ultimately show ?thesis
    by (auto simp: parseAllureReports_lastParseTime healthCheck_iff)
qed

theorem health_tracks_every_cycle_witness:
  "5 * Minute < example_now
   \<and> healthCheck example_now initial_globals = Unhealthy ''UNHEALTHY: Data is stale''
   \<and> lastParseTime example_published = example_now
   \<and> healthCheck (example_now + 5 * Minute) example_published = OK
   \<and> healthCheck (example_now + 5 * Minute + 1) example_published
       = Unhealthy ''UNHEALTHY: Data is stale''"
proof -
  have h: "5 * Minute < example_now"
    by (simp add: Minute_def example_now_def)
  from health_tracks_every_cycle [of example_dir example_now initial_globals example_now]
  have 1: "healthCheck example_now initial_globals = Unhealthy ''UNHEALTHY: Data is stale''"
    and 2: "lastParseTime example_published = example_now"
    using h by (simp_all add: example_published_def)
  from health_tracks_every_cycle [of example_dir example_now example_published "example_now + 5 * Minute"]
  have 3: "healthCheck (example_now + 5 * Minute) example_published = OK"
    using 2 by simp
  from health_tracks_every_cycle [of example_dir example_now example_published "example_now + 5 * Minute + 1"]
  have 4: "healthCheck (example_now + 5 * Minute + 1) example_published
       = Unhealthy ''UNHEALTHY: Data is stale''"
    using 2 by simp
  from h 1 2 3 4 show ?thesis by blast
qed

subsection \<open>Between the reset and the last update\<close>

text \<open>
  A cycle writes the registry in place, one call after the other, and takes no lock of its
  own. The registry right after \<open>resetMetrics\<close> is neither the registry before the cycle
  nor the registry after it. Whether a reader can observe it depends on the interleaving
  of the goroutines, which a sequential embedding does not express.
\<close>

lemma registry_after_reset_is_neither_snapshot:
  "resetMetrics (g_metrics example_published) \<noteq> g_metrics example_published
   \<and> resetMetrics (g_metrics example_published) \<noteq>
       g_metrics (snd (parseAllureReports example_dir (example_now + 30000000000) example_published))"
proof -
  have a: "testsTotal (resetMetrics (g_metrics example_published)) ''passed'' = None"
    by simp
  have b: "testsTotal (g_metrics (snd (parseAllureReports example_dir
      (example_now + 30000000000) example_published))) ''passed'' = Some 85"
    by code_simp
  have "resetMetrics (g_metrics example_published) \<noteq> m" if "testsTotal m ''passed'' = Some 85" for m
  proof
    assume e: "resetMetrics (g_metrics example_published) = m"
    from a show False
      unfolding e using that by simp
  qed
  from this [OF example_published_passed] this [OF b] show ?thesis
    by (rule conjI)
qed

subsection \<open>C4: the flaky ratio\<close>



subsection \<open>C5: grouping by tag\<close>




subsection \<open>C6: the duration of a test\<close>

text \<open>
  Claim C6 as stated (the published duration of a test is never negative) does not hold:
  a test case that starts at 2000 and stops at 1000 is published with a duration of -1
  second.
\<close>

theorem negative_duration_counterexample:
  "sint (tc_Stop example_backwards_test_case) < sint (tc_Start example_backwards_test_case)
   \<and> testDuration (updateTestCaseMetrics example_backwards_test_case initial_metrics)
        (''login_test'', ''unknown'') = Some (- 1)"
  by code_simp

text \<open>
  Claim C6, amended: for every test case, the duration published to
  \<open>test_duration_seconds\<close> is the signed 64-bit difference \<open>stop - start\<close> divided by 1000,
  with no clamping and no flag; it is negative exactly when that difference is negative,
  which for timestamps that are not negative is exactly when the stop timestamp is smaller
  than the start timestamp.
\<close>

theorem test_duration_is_signed_difference:
  "testDuration (updateTestCaseMetrics tc m) (tc_Name tc, getLabelValue (tc_Labels tc) ''suite'')
     = Some (of_int (sint (tc_Stop tc - tc_Start tc)) / 1000)
   \<and> ((of_int (sint (tc_Stop tc - tc_Start tc)) / 1000 :: float64) < 0
        \<longleftrightarrow> sint (tc_Stop tc - tc_Start tc) < 0)
   \<and> (0 \<le> sint (tc_Start tc) \<and> 0 \<le> sint (tc_Stop tc) \<longrightarrow>
        (sint (tc_Stop tc - tc_Start tc) < 0 \<longleftrightarrow> sint (tc_Stop tc) < sint (tc_Start tc)))"
proof -
  have a: "testDuration (updateTestCaseMetrics tc m) (tc_Name tc, getLabelValue (tc_Labels tc) ''suite'')
     = Some (of_int (sint (tc_Stop tc - tc_Start tc)) / 1000)"
    by (simp add: testDuration_updateTestCaseMetrics)
  have lt: "(of_int i / 1000 :: float64) < 0 \<longleftrightarrow> i < 0" for i :: int
    by simp
  note b = lt [of "sint (tc_Stop tc - tc_Start tc)"]
  have c: "0 \<le> sint (tc_Start tc) \<and> 0 \<le> sint (tc_Stop tc) \<longrightarrow>
        (sint (tc_Stop tc - tc_Start tc) < 0 \<longleftrightarrow> sint (tc_Stop tc) < sint (tc_Start tc))"
    by (simp add: sint_sub_nonneg)
  from a b c show ?thesis
    by (intro conjI)
qed

theorem test_duration_is_signed_difference_witness:
  "0 \<le> sint (tc_Start example_backwards_test_case) \<and> 0 \<le> sint (tc_Stop example_backwards_test_case)
   \<and> sint (tc_Stop example_backwards_test_case) < sint (tc_Start example_backwards_test_case)
   \<and> sint (tc_Stop example_backwards_test_case - tc_Start example_backwards_test_case) < 0
   \<and> testDuration (updateTestCaseMetrics example_backwards_test_case initial_metrics)
        (''login_test'', ''unknown'') = Some (- 1)"
proof -
  have s: "tc_Start example_backwards_test_case = 2000" "tc_Stop example_backwards_test_case = 1000"
    "tc_Name example_backwards_test_case = ''login_test''"
    "tc_Labels example_backwards_test_case = tc_Labels example_test_case"
    by (simp_all add: example_backwards_test_case_def example_test_case_def)
  from test_duration_is_signed_difference [of example_backwards_test_case initial_metrics]
  show ?thesis
    by (simp add: s example_suite_unknown)
qed

subsection \<open>C7: label lookup\<close>



subsection \<open>C8: the metrics of the Summary\<close>



subsection \<open>C9: two cycles over the same directory\<close>

text \<open>
  Claim C9: two consecutive cycles over an unmodified directory publish the same metrics:
  the registry after the second cycle equals the registry after the first, and both cycles
  return the same result. In particular the \<open>tests_by_label\<close> counters, which are
  accumulated with \<open>Inc\<close>, do not grow from one cycle to the next. This holds for every
  directory, whether the cycles succeed or not.
\<close>

theorem consecutive_cycles_publish_the_same:
  "g_metrics (snd (parseAllureReports dir now2 (snd (parseAllureReports dir now1 g))))
     = g_metrics (snd (parseAllureReports dir now1 g))
   \<and> fst (parseAllureReports dir now2 (snd (parseAllureReports dir now1 g)))
     = fst (parseAllureReports dir now1 g)"
  using parse_body_fst [of dir "snd (parse_body dir (g_metrics g))" "g_metrics g"]
  by (simp add: parseAllureReports_metrics parseAllureReports_fst parse_body_idem)

theorem consecutive_cycles_publish_the_same_witness:
  "fst (parseAllureReports example_dir (example_now + 30000000000) example_published) = None
   \<and> testsByLabel (g_metrics (snd (parseAllureReports example_dir
         (example_now + 30000000000) example_published))) (''Severity'', ''critical'') = Some 1
   \<and> testsTotal (g_metrics (snd (parseAllureReports example_dir
         (example_now + 30000000000) example_published))) ''passed'' = Some 85"
  using consecutive_cycles_publish_the_same [of example_dir "example_now + 30000000000"
      example_now initial_globals]
  by (simp add: example_published_def [symmetric] example_published_by_label
      example_published_passed)
    (simp add: example_published_def example_cycle_ok)

subsection \<open>C10: several labels with the requested name\<close>



end
